theory Spec2Isabelle
  imports Complex_Main "HOL-Library.AList" "HOL-Library.Sublist"
begin

section \<open>Data model of the animal guesser\<close>

text \<open>
  The program keeps its animals and questions as lists of Python dictionaries. An animal
  is \<open>{"name": ..., "features": {...}}\<close>; a question is
  \<open>{"text": ..., "feature": ..., "weight": ...}\<close>, whose key \<open>text\<close> is the field
  \<open>question_text\<close> of the record. A Python dictionary keeps its keys
  in insertion order and holds each key once, so the feature dictionary and the answers
  of a game are association lists: reading is \<open>map_of\<close>, writing is
  \<open>AList.update\<close> (which overwrites an existing key where it stands and appends a
  new one at the end, as the dictionary does).

  Python numbers (the integers and floats of the JSON file, the float literals \<open>0.5\<close>,
  \<open>0.1\<close>, \<open>0.95\<close>, true division and \<open>math.log2\<close>) are modelled as real numbers:
  rounding of floating-point arithmetic is not part of the model. The answers of a game
  are Python integers.

  The program computes with IEEE doubles, so a computed number of the model can differ
  from the program's in its last bits. The properties proved below use the comparisons,
  the clamp and the sign of the computed numbers, and the constants the program returns
  as they stand (0, 0.1, 0.95). No property states the exact value of a computed
  entropy: at 30466338 candidates above 0.5 out of 60932677 the doubles of the program
  give an entropy of exactly 1.0 while the real number of the model is below 1.
\<close>

record animal =
  name :: string
  features :: "(string \<times> real) list"

record question =
  question_text :: string
  feature :: string
  weight :: real

type_synonym answers = "(string \<times> int) list"

record game_record =
  date :: string
  animal_name :: string
  recorded_answers :: answers
  description :: string
  success :: bool

record stats =
  played :: nat
  correct :: nat

record guesser =
  animals :: "animal list"
  questions :: "question list"
  game_history :: "game_record list"
  game_stats :: stats

text \<open>\<^verbatim>\<open>animal['features'].get(feature, 0)\<close>: a missing feature reads as 0.\<close>

definition get_feature :: "animal \<Rightarrow> string \<Rightarrow> real" where
  "get_feature a f = (case map_of (features a) f of None \<Rightarrow> 0 | Some v \<Rightarrow> v)"

text \<open>\<^verbatim>\<open>animal['features'][feature] = value\<close>.\<close>

definition set_feature :: "animal \<Rightarrow> string \<Rightarrow> real \<Rightarrow> animal" where
  "set_feature a f v = a\<lparr>features := AList.update f v (features a)\<rparr>"

subsection \<open>The built-in data\<close>

definition default_animals :: "animal list" where
  "default_animals =
    [\<lparr>name = ''Dog'', features = [(''mammal'', 1), (''domestic'', 1), (''four_legs'', 1), (''barks'', 1), (''carnivore'', 1/2)]\<rparr>,
     \<lparr>name = ''Cat'', features = [(''mammal'', 1), (''domestic'', 1), (''four_legs'', 1), (''purrs'', 1), (''carnivore'', 1)]\<rparr>,
     \<lparr>name = ''Elephant'', features = [(''mammal'', 1), (''large'', 1), (''four_legs'', 1), (''trunk'', 1), (''herbivore'', 1)]\<rparr>,
     \<lparr>name = ''Lion'', features = [(''mammal'', 1), (''carnivore'', 1), (''four_legs'', 1), (''wild'', 1), (''roars'', 1)]\<rparr>,
     \<lparr>name = ''Fish'', features = [(''aquatic'', 1), (''fins'', 1), (''gills'', 1), (''scales'', 1), (''cold_blooded'', 1)]\<rparr>,
     \<lparr>name = ''Bird'', features = [(''flies'', 1), (''feathers'', 1), (''beak'', 1), (''lays_eggs'', 1), (''warm_blooded'', 1)]\<rparr>,
     \<lparr>name = ''Snake'', features = [(''reptile'', 1), (''no_legs'', 1), (''cold_blooded'', 1), (''carnivore'', 1), (''long'', 1)]\<rparr>,
     \<lparr>name = ''Rabbit'', features = [(''mammal'', 1), (''herbivore'', 1), (''four_legs'', 1), (''hops'', 1), (''long_ears'', 1)]\<rparr>,
     \<lparr>name = ''Bear'', features = [(''mammal'', 1), (''large'', 1), (''four_legs'', 1), (''omnivore'', 1), (''wild'', 1)]\<rparr>,
     \<lparr>name = ''Whale'', features = [(''mammal'', 1), (''aquatic'', 1), (''large'', 1), (''intelligent'', 1), (''warm_blooded'', 1)]\<rparr>]"

definition default_questions :: "question list" where
  "default_questions =
    [\<lparr>question_text = ''Is it a mammal?'', feature = ''mammal'', weight = 8/10\<rparr>,
     \<lparr>question_text = ''Does it live on land?'', feature = ''terrestrial'', weight = 7/10\<rparr>,
     \<lparr>question_text = ''Is it larger than a house cat?'', feature = ''large'', weight = 6/10\<rparr>,
     \<lparr>question_text = ''Is it a carnivore (meat-eater)?'', feature = ''carnivore'', weight = 7/10\<rparr>,
     \<lparr>question_text = ''Does it have four legs?'', feature = ''four_legs'', weight = 8/10\<rparr>,
     \<lparr>question_text = ''Is it a domestic animal?'', feature = ''domestic'', weight = 6/10\<rparr>,
     \<lparr>question_text = ''Can it fly?'', feature = ''flies'', weight = 9/10\<rparr>,
     \<lparr>question_text = ''Does it live in water?'', feature = ''aquatic'', weight = 8/10\<rparr>,
     \<lparr>question_text = ''Is it a predator?'', feature = ''predator'', weight = 6/10\<rparr>,
     \<lparr>question_text = ''Does it have fur?'', feature = ''fur'', weight = 7/10\<rparr>]"

section \<open>Question selection\<close>

text \<open>
  \<open>calculate_entropy\<close>: the number of candidates whose feature value is above 0.5, and
  the binary entropy of the split, with the two early returns of the source.
\<close>

definition yes_count :: "animal list \<Rightarrow> string \<Rightarrow> nat" where
  "yes_count candidates f = length (filter (\<lambda>a. get_feature a f > 1/2) candidates)"

definition calculate_entropy :: "animal list \<Rightarrow> string \<Rightarrow> real" where
  "calculate_entropy candidates f =
    (if length candidates \<le> 1 then 0
     else
       let yes = yes_count candidates f;
           total = length candidates
       in if yes = 0 \<or> yes = total then 0
          else
            let yes_ratio = real yes / real total;
                no_ratio = 1 - yes_ratio
            in - (yes_ratio * log 2 yes_ratio + no_ratio * log 2 no_ratio))"

text \<open>The ratio \<open>yes_count / total\<close> of the source, named for the statements below.\<close>

definition yes_fraction :: "animal list \<Rightarrow> string \<Rightarrow> real" where
  "yes_fraction candidates f = real (yes_count candidates f) / real (length candidates)"

text \<open>
  The loop of \<open>get_best_question\<close> over the available questions, with its state
  \<open>(best_question, max_gain)\<close>.
\<close>

fun best_question_loop ::
  "animal list \<Rightarrow> question list \<Rightarrow> question option \<times> real \<Rightarrow> question option \<times> real" where
  "best_question_loop candidates [] st = st"
| "best_question_loop candidates (q # qs) (best_question, max_gain) =
    (let entropy = calculate_entropy candidates (feature q);
         weighted_gain = entropy * weight q
     in if weighted_gain > max_gain
        then best_question_loop candidates qs (Some q, weighted_gain)
        else best_question_loop candidates qs (best_question, max_gain))"

text \<open>The weighted gain the loop computes for one question.\<close>

definition weighted_gain :: "animal list \<Rightarrow> question \<Rightarrow> real" where
  "weighted_gain c q = calculate_entropy c (feature q) * weight q"

definition available_questions :: "question list \<Rightarrow> string list \<Rightarrow> question list" where
  "available_questions qs asked_features = filter (\<lambda>q. feature q \<notin> set asked_features) qs"

definition get_best_question ::
  "question list \<Rightarrow> animal list \<Rightarrow> string list \<Rightarrow> question option" where
  "get_best_question qs candidates asked_features =
    (let available = available_questions qs asked_features
     in if available = [] then None
        else fst (best_question_loop candidates available (None, 0)))"

section \<open>Filtering and guessing\<close>

text \<open>
  The inner loop of \<open>filter_candidates\<close>: the flag \<open>matches\<close> starts true and the
  loop leaves with false at the first answer the animal contradicts.
\<close>

fun matches_answers :: "animal \<Rightarrow> answers \<Rightarrow> bool" where
  "matches_answers a [] = True"
| "matches_answers a ((f, answer) # rest) =
    (let animal_value = get_feature a f
     in if answer = 1 \<and> animal_value < 1/2 then False
        else if answer = 0 \<and> animal_value > 1/2 then False
        else matches_answers a rest)"

fun filter_candidates :: "animal list \<Rightarrow> answers \<Rightarrow> animal list" where
  "filter_candidates [] ans = []"
| "filter_candidates (a # as) ans =
    (if matches_answers a ans then a # filter_candidates as ans
     else filter_candidates as ans)"

text \<open>The scoring loop of \<open>make_guess\<close> for one animal, with the running score.\<close>

fun score_loop :: "animal \<Rightarrow> answers \<Rightarrow> nat \<Rightarrow> nat" where
  "score_loop a [] score = score"
| "score_loop a ((f, answer) # rest) score =
    (let animal_value = get_feature a f
     in if (answer = 1 \<and> animal_value > 1/2) \<or> (answer = 0 \<and> animal_value < 1/2)
        then score_loop a rest (score + 1)
        else score_loop a rest score)"

definition normalized_score :: "animal \<Rightarrow> answers \<Rightarrow> real" where
  "normalized_score a ans =
    (let score = score_loop a ans 0;
         total_features = length ans
     in if total_features > 0 then real score / real total_features else 0)"

text \<open>The loop over the candidates, with its state \<open>(best_animal, best_score)\<close>.\<close>

fun best_animal_loop ::
  "answers \<Rightarrow> animal list \<Rightarrow> animal option \<times> real \<Rightarrow> animal option \<times> real" where
  "best_animal_loop ans [] st = st"
| "best_animal_loop ans (a # as) (best_animal, best_score) =
    (if normalized_score a ans > best_score
     then best_animal_loop ans as (Some a, normalized_score a ans)
     else best_animal_loop ans as (best_animal, best_score))"

definition confidence_of :: "real \<Rightarrow> nat \<Rightarrow> real" where
  "confidence_of best_score num_candidates =
    min (95/100) (max (1/10) (best_score * (1 - real_of_int (int num_candidates - 1) * (1/10))))"

definition make_guess :: "animal list \<Rightarrow> answers \<Rightarrow> animal option \<times> real" where
  "make_guess as ans =
    (let candidates = filter_candidates as ans
     in case candidates of
          [] \<Rightarrow> (None, 0)
        | [c] \<Rightarrow> (Some c, 95/100)
        | _ \<Rightarrow>
          (let (best_animal, best_score) = best_animal_loop ans candidates (None, 0)
           in (best_animal, confidence_of best_score (length candidates))))"

section \<open>Learning\<close>

text \<open>
  \<open>str.lower\<close> on ASCII text: the letters A to Z go to a to z and every other
  character stays. \<open>keyword in desc_lower\<close> is the substring test.
\<close>

definition lower_char :: "char \<Rightarrow> char" where
  "lower_char c =
    (case map_of (zip ''ABCDEFGHIJKLMNOPQRSTUVWXYZ'' ''abcdefghijklmnopqrstuvwxyz'') c of
       None \<Rightarrow> c
     | Some d \<Rightarrow> d)"

definition lower :: "string \<Rightarrow> string" where
  "lower s = map lower_char s"

fun starts_with :: "string \<Rightarrow> string \<Rightarrow> bool" where
  "starts_with [] s = True"
| "starts_with (k # ks) [] = False"
| "starts_with (k # ks) (c # cs) = (k = c \<and> starts_with ks cs)"

fun str_contains :: "string \<Rightarrow> string \<Rightarrow> bool" where
  "str_contains kw [] = (kw = [])"
| "str_contains kw (c # cs) = (starts_with kw (c # cs) \<or> str_contains kw cs)"

definition feature_keywords :: "(string \<times> string list) list" where
  "feature_keywords =
    [(''large'', [''large'', ''big'', ''huge'', ''massive'', ''giant'']),
     (''small'', [''small'', ''tiny'', ''little'', ''miniature'']),
     (''aquatic'', [''water'', ''ocean'', ''sea'', ''swimming'', ''aquatic'']),
     (''flies'', [''fly'', ''flying'', ''wings'', ''air'', ''flight'']),
     (''domestic'', [''pet'', ''domestic'', ''house'', ''tame'']),
     (''wild'', [''wild'', ''jungle'', ''forest'', ''safari'']),
     (''carnivore'', [''meat'', ''carnivore'', ''predator'', ''hunter'']),
     (''herbivore'', [''plants'', ''grass'', ''herbivore'', ''vegetarian'']),
     (''fur'', [''fur'', ''furry'', ''hairy'']),
     (''feathers'', [''feather'', ''feathered'']),
     (''scales'', [''scale'', ''scaled'', ''scaly''])]"

text \<open>The inner loop over the keywords of one feature: it stops at the first match.\<close>

fun keyword_loop :: "animal \<Rightarrow> string \<Rightarrow> string \<Rightarrow> string list \<Rightarrow> animal" where
  "keyword_loop a desc_lower f [] = a"
| "keyword_loop a desc_lower f (keyword # keywords) =
    (if str_contains keyword desc_lower then set_feature a f 1
     else keyword_loop a desc_lower f keywords)"

fun feature_loop :: "animal \<Rightarrow> string \<Rightarrow> (string \<times> string list) list \<Rightarrow> animal" where
  "feature_loop a desc_lower [] = a"
| "feature_loop a desc_lower ((f, keywords) # rest) =
    feature_loop (keyword_loop a desc_lower f keywords) desc_lower rest"

definition extract_features_from_description :: "animal \<Rightarrow> string \<Rightarrow> animal" where
  "extract_features_from_description a desc = feature_loop a (lower desc) feature_keywords"

text \<open>
  \<open>learn_from_game\<close>. The search for the animal returns the position of the first
  animal whose lowered name equals the lowered given name; the animal at that position
  is the object the source then mutates.
\<close>

fun find_animal :: "animal list \<Rightarrow> string \<Rightarrow> nat option" where
  "find_animal [] actual_animal = None"
| "find_animal (a # as) actual_animal =
    (if lower (name a) = lower actual_animal then Some 0
     else map_option Suc (find_animal as actual_animal))"

fun update_features :: "animal \<Rightarrow> answers \<Rightarrow> animal" where
  "update_features a [] = a"
| "update_features a ((f, answer) # rest) = update_features (set_feature a f (real_of_int answer)) rest"

text \<open>
  The time stamp of the game record is read from the clock; it is a parameter here.
  Writing the data file and printing do not change the state in memory.
\<close>

definition learn_from_game :: "string \<Rightarrow> string \<Rightarrow> answers \<Rightarrow> string \<Rightarrow> guesser \<Rightarrow> guesser" where
  "learn_from_game now actual_animal ans desc g =
    (let (as, i) =
           (case find_animal (animals g) actual_animal of
              Some i \<Rightarrow> (animals g, i)
            | None \<Rightarrow> (animals g @ [\<lparr>name = actual_animal, features = []\<rparr>], length (animals g)));
         a1 = update_features (as ! i) ans;
         a2 = (if desc \<noteq> [] then extract_features_from_description a1 desc else a1)
     in g\<lparr>animals := as[i := a2],
          game_history := game_history g @
            [\<lparr>date = now, animal_name = actual_animal, recorded_answers = ans,
              description = desc, success = False\<rparr>]\<rparr>)"

text \<open>
  The animal that \<open>learn_from_game\<close> leaves in place of the one it found or created:
  the answers are stored, then the description, when there is one, is scanned.
\<close>

definition learned_animal :: "animal \<Rightarrow> answers \<Rightarrow> string \<Rightarrow> animal" where
  "learned_animal a ans desc =
    (if desc \<noteq> [] then extract_features_from_description (update_features a ans) desc
     else update_features a ans)"

text \<open>The state after \<open>__init__\<close> when there is no data file.\<close>

definition initial_guesser :: guesser where
  "initial_guesser =
    \<lparr>animals = default_animals, questions = default_questions, game_history = [],
     game_stats = \<lparr>played = 0, correct = 0\<rparr>\<rparr>"

section \<open>The filter rule and the entropy in the words of the specification\<close>

text \<open>
  The specification states the rule of the filter pair by pair: an entity is excluded by
  a pair \<open>(feature, answer)\<close> if the answer is 1 and its value is below 0.5, or the
  answer is 0 and its value is above 0.5. These two definitions follow those words;
  \<open>matches_answers\<close> and \<open>filter_candidates\<close> above follow the source.
\<close>

definition spec_excluded :: "animal \<Rightarrow> string \<Rightarrow> int \<Rightarrow> bool" where
  "spec_excluded a f answer \<longleftrightarrow>
     (answer = 1 \<and> get_feature a f < 1/2) \<or> (answer = 0 \<and> get_feature a f > 1/2)"

definition spec_survives :: "animal \<Rightarrow> answers \<Rightarrow> bool" where
  "spec_survives a ans \<longleftrightarrow> (\<forall>(f, answer) \<in> set ans. \<not> spec_excluded a f answer)"

text \<open>
  The binary Shannon entropy of the specification,
  \<open>-(p log2 p + (1 - p) log2 (1 - p))\<close>.
\<close>

definition spec_binary_entropy :: "real \<Rightarrow> real" where
  "spec_binary_entropy p = - (p * log 2 p + (1 - p) * log 2 (1 - p))"

section \<open>Properties of the filter\<close>

lemma matches_answers_Cons:
  "matches_answers a ((f, answer) # rest) \<longleftrightarrow>
     \<not> spec_excluded a f answer \<and> matches_answers a rest"
  by (simp add: spec_excluded_def Let_def)

lemma matches_answers_iff:
  "matches_answers a ans \<longleftrightarrow> (\<forall>(f, answer) \<in> set ans. \<not> spec_excluded a f answer)"
proof (induction ans)
  case Nil
  show ?case by simp
next
  case (Cons p rest)
  obtain f answer where p: "p = (f, answer)" by (cases p)
  show ?case unfolding p matches_answers_Cons Cons.IH by simp
qed

lemma filter_candidates_filter:
  "filter_candidates as ans = filter (\<lambda>a. matches_answers a ans) as"
  by (induction as) auto

lemma matches_answers_mono:
  "set ans1 \<subseteq> set ans2 \<Longrightarrow> matches_answers a ans2 \<Longrightarrow> matches_answers a ans1"
  unfolding matches_answers_iff by blast

text \<open>
  Claim C2. \<open>filter_candidates\<close> returns, in stored order, exactly the entities that
  no pair of the answers excludes, where a pair excludes an entity iff the answer is 1
  and the value is below 0.5 or the answer is 0 and the value is above 0.5, a missing
  feature counting as 0; an entity whose value for a feature is exactly 0.5 is excluded
  by neither answer for that feature.
\<close>

theorem filter_candidates_rule:
  "filter_candidates as ans = filter (\<lambda>a. spec_survives a ans) as \<and>
   (map_of (features a) f = None \<longrightarrow> get_feature a f = 0) \<and>
   (get_feature a f = 1/2 \<longrightarrow> \<not> spec_excluded a f answer)"
  by (simp add: filter_candidates_filter matches_answers_iff spec_survives_def spec_excluded_def
      get_feature_def)

theorem filter_candidates_rule_witness:
  "get_feature (default_animals ! 0) ''carnivore'' = 1/2 \<and>
   \<not> spec_excluded (default_animals ! 0) ''carnivore'' 1 \<and>
   \<not> spec_excluded (default_animals ! 0) ''carnivore'' 0 \<and>
   map_of (features (default_animals ! 4)) ''carnivore'' = None \<and>
   get_feature (default_animals ! 4) ''carnivore'' = 0 \<and>
   filter_candidates default_animals [(''carnivore'', 1)] =
     filter (\<lambda>a. spec_survives a [(''carnivore'', 1)]) default_animals \<and>
   map name (filter_candidates default_animals [(''carnivore'', 1)]) =
     [''Dog'', ''Cat'', ''Lion'', ''Snake'']"
proof -
  have h: "get_feature (default_animals ! 0) ''carnivore'' = 1/2"
    by (simp add: default_animals_def get_feature_def)
  have n: "map name (filter_candidates default_animals [(''carnivore'', 1)]) =
     [''Dog'', ''Cat'', ''Lion'', ''Snake'']"
    by (simp add: default_animals_def get_feature_def)
  have m: "map_of (features (default_animals ! 4)) ''carnivore'' = None"
    by (simp add: default_animals_def)
  from h n m
    filter_candidates_rule[of default_animals "[(''carnivore'', 1)]" "default_animals ! 4" "''carnivore''" 1]
    filter_candidates_rule[of default_animals "[(''carnivore'', 1)]" "default_animals ! 0" "''carnivore''" 1]
    filter_candidates_rule[of default_animals "[(''carnivore'', 1)]" "default_animals ! 0" "''carnivore''" 0]
  show ?thesis by blast
qed

text \<open>
  Claim C7. When every pair of a first AnswerSet is also in a second one, the candidates
  of the second are a subsequence (so a subset, and no more in number) of the candidates
  of the first, and the candidates of the first are a subsequence of the entity list.
\<close>

theorem filter_candidates_monotone:
  assumes "set ans1 \<subseteq> set ans2"
  shows "subseq (filter_candidates as ans2) (filter_candidates as ans1) \<and>
         subseq (filter_candidates as ans1) as \<and>
         set (filter_candidates as ans2) \<subseteq> set (filter_candidates as ans1) \<and>
         set (filter_candidates as ans1) \<subseteq> set as \<and>
         length (filter_candidates as ans2) \<le> length (filter_candidates as ans1)"
proof -
  have eq: "filter_candidates as ans2 =
      filter (\<lambda>a. matches_answers a ans2) (filter_candidates as ans1)"
    using matches_answers_mono[OF assms]
    by (auto simp: filter_candidates_filter intro: filter_cong)
  have s2: "subseq (filter_candidates as ans2) (filter_candidates as ans1)"
    by (subst eq) simp
  have s1: "subseq (filter_candidates as ans1) as"
    by (simp add: filter_candidates_filter)
  have i2: "set (filter_candidates as ans2) \<subseteq> set (filter_candidates as ans1)"
    by (subst eq) auto
  have i1: "set (filter_candidates as ans1) \<subseteq> set as"
    by (auto simp: filter_candidates_filter)
  have l: "length (filter_candidates as ans2) \<le> length (filter_candidates as ans1)"
    by (subst eq) simp
  from s1 s2 i1 i2 l show ?thesis by blast
qed

theorem filter_candidates_monotone_witness:
  "set [(''mammal'', 1::int)] \<subseteq> set [(''mammal'', 1), (''aquatic'', 1)] \<and>
   map name (filter_candidates default_animals [(''mammal'', 1)]) =
     [''Dog'', ''Cat'', ''Elephant'', ''Lion'', ''Rabbit'', ''Bear'', ''Whale''] \<and>
   map name (filter_candidates default_animals [(''mammal'', 1), (''aquatic'', 1)]) = [''Whale''] \<and>
   subseq (filter_candidates default_animals [(''mammal'', 1), (''aquatic'', 1)])
     (filter_candidates default_animals [(''mammal'', 1)]) \<and>
   subseq (filter_candidates default_animals [(''mammal'', 1)]) default_animals"
proof -
  have h: "set [(''mammal'', 1::int)] \<subseteq> set [(''mammal'', 1), (''aquatic'', 1)]"
    by simp
  have n1: "map name (filter_candidates default_animals [(''mammal'', 1)]) =
     [''Dog'', ''Cat'', ''Elephant'', ''Lion'', ''Rabbit'', ''Bear'', ''Whale'']"
    by (simp add: default_animals_def get_feature_def)
  have n2: "map name (filter_candidates default_animals [(''mammal'', 1), (''aquatic'', 1)]) =
     [''Whale'']"
    by (simp add: default_animals_def get_feature_def)
  from h n1 n2 filter_candidates_monotone[OF h, of default_animals]
  show ?thesis by blast
qed

section \<open>Properties of the guess\<close>

lemma confidence_of_bounds: "1/10 \<le> confidence_of s n \<and> confidence_of s n \<le> 95/100"
  by (simp add: confidence_of_def min_def max_def)

lemma best_animal_loop_no_answers: "best_animal_loop [] as (None, 0) = (None, 0)"
  by (induction as) (auto simp: normalized_score_def)

text \<open>
  With no answers every normalized score is 0, the comparison
  \<open>normalized_score > best_score\<close> never holds against the initial \<open>best_score = 0\<close>,
  and \<open>best_animal\<close> keeps its initial value \<open>None\<close>: with two or more entities the
  guess is no entity, with confidence 0.1.
\<close>

lemma make_guess_no_answers:
  assumes "2 \<le> length as"
  shows "make_guess as [] = (None, 1/10)"
proof -
  have fc: "filter_candidates as [] = as" by (induction as) auto
  from assms obtain a b rest where as: "as = a # b # rest"
    by (cases as; cases "tl as") auto
  have "make_guess as [] = (None, confidence_of 0 (length as))"
    unfolding make_guess_def fc Let_def best_animal_loop_no_answers
    by (simp add: as)
  then show ?thesis by (simp add: confidence_of_def)
qed

text \<open>
  Claim C1 says that with no answers and at least two entities \<open>make_guess\<close> returns
  the first entity in stored order with confidence 0.1. On the ten built-in animals the
  function returns no entity at all, with confidence 0.1.
\<close>

theorem make_guess_empty_answers_returns_none:
  "make_guess default_animals [] = (None, 1/10)"
  by (simp add: make_guess_def default_animals_def confidence_of_def normalized_score_def)

text \<open>
  Claim C5. If the filter leaves no candidate, \<open>make_guess\<close> returns no entity and
  confidence 0; if it leaves exactly one candidate, \<open>make_guess\<close> returns that entity
  with confidence 0.95.
\<close>

theorem make_guess_none_or_single:
  "(filter_candidates as ans = [] \<longrightarrow> make_guess as ans = (None, 0)) \<and>
   (\<forall>c. filter_candidates as ans = [c] \<longrightarrow> make_guess as ans = (Some c, 95/100))"
  by (simp add: make_guess_def)

theorem make_guess_none_or_single_witness:
  "filter_candidates default_animals [(''mammal'', 1), (''flies'', 1)] = [] \<and>
   make_guess default_animals [(''mammal'', 1), (''flies'', 1)] = (None, 0) \<and>
   filter_candidates default_animals [(''mammal'', 1), (''aquatic'', 1)] = [default_animals ! 9] \<and>
   make_guess default_animals [(''mammal'', 1), (''aquatic'', 1)] =
     (Some (default_animals ! 9), 95/100)"
proof -
  have e: "filter_candidates default_animals [(''mammal'', 1), (''flies'', 1)] = []"
    by (simp add: default_animals_def get_feature_def)
  have w: "filter_candidates default_animals [(''mammal'', 1), (''aquatic'', 1)] =
      [default_animals ! 9]"
    by (simp add: default_animals_def get_feature_def)
  from make_guess_none_or_single[of default_animals "[(''mammal'', 1), (''flies'', 1)]"] e
  have 1: "make_guess default_animals [(''mammal'', 1), (''flies'', 1)] = (None, 0)"
    by blast
  from make_guess_none_or_single[of default_animals "[(''mammal'', 1), (''aquatic'', 1)]"] w
  have 2: "make_guess default_animals [(''mammal'', 1), (''aquatic'', 1)] =
      (Some (default_animals ! 9), 95/100)"
    by blast
  from e w 1 2 show ?thesis by blast
qed

text \<open>
  Claim C6 says that the confidence of \<open>make_guess\<close> lies in [0.1, 0.95] for every
  entity set and AnswerSet. The answers "mammal: yes, flies: yes" leave no candidate
  among the built-in animals, and the confidence returned is 0.
\<close>

theorem make_guess_confidence_counterexample:
  "\<not> (1/10 \<le> snd (make_guess default_animals [(''mammal'', 1), (''flies'', 1)]) \<and>
      snd (make_guess default_animals [(''mammal'', 1), (''flies'', 1)]) \<le> 95/100)"
  by (simp add: make_guess_def default_animals_def get_feature_def)

text \<open>
  Claim C6, amended. When the filter leaves no candidate the confidence is 0. When it
  leaves at least one, the confidence lies in [0.1, 0.95]; with two or more candidates
  it is the raw score \<open>best_score * (1 - (num_candidates - 1) * 0.1)\<close> clamped to that
  interval.
\<close>

theorem make_guess_confidence:
  "(filter_candidates as ans = [] \<longrightarrow> snd (make_guess as ans) = 0) \<and>
   (filter_candidates as ans \<noteq> [] \<longrightarrow>
      1/10 \<le> snd (make_guess as ans) \<and> snd (make_guess as ans) \<le> 95/100) \<and>
   (2 \<le> length (filter_candidates as ans) \<longrightarrow>
      snd (make_guess as ans) =
        min (95/100) (max (1/10)
          (snd (best_animal_loop ans (filter_candidates as ans) (None, 0)) *
            (1 - (real (length (filter_candidates as ans)) - 1) * (1/10)))))"
proof (cases "filter_candidates as ans")
  case Nil
  then show ?thesis by (simp add: make_guess_def)
next
  case (Cons c cs)
  note outer = Cons
  show ?thesis
  proof (cases cs)
    case Nil
    with outer show ?thesis by (simp add: make_guess_def)
  next
    case (Cons d ds)
    with outer have "snd (make_guess as ans) =
        confidence_of (snd (best_animal_loop ans (filter_candidates as ans) (None, 0)))
          (length (filter_candidates as ans))"
      by (simp add: make_guess_def split: prod.splits)
    with outer Cons confidence_of_bounds show ?thesis
      by (simp add: confidence_of_def)
  qed
qed

theorem make_guess_confidence_witness:
  "filter_candidates default_animals [(''carnivore'', 1)] \<noteq> [] \<and>
   2 \<le> length (filter_candidates default_animals [(''carnivore'', 1)]) \<and>
   snd (make_guess default_animals [(''carnivore'', 1)]) = 7/10 \<and>
   1/10 \<le> snd (make_guess default_animals [(''carnivore'', 1)]) \<and>
   snd (make_guess default_animals [(''carnivore'', 1)]) \<le> 95/100 \<and>
   filter_candidates default_animals [(''mammal'', 1), (''flies'', 1)] = [] \<and>
   snd (make_guess default_animals [(''mammal'', 1), (''flies'', 1)]) = 0"
proof -
  have fc: "filter_candidates default_animals [(''carnivore'', 1)] =
      [default_animals ! 0, default_animals ! 1, default_animals ! 3, default_animals ! 6]"
    by (simp add: default_animals_def get_feature_def)
  have bl: "snd (best_animal_loop [(''carnivore'', 1)]
      [default_animals ! 0, default_animals ! 1, default_animals ! 3, default_animals ! 6] (None, 0)) = 1"
    by (simp add: default_animals_def get_feature_def normalized_score_def)
  have e: "filter_candidates default_animals [(''mammal'', 1), (''flies'', 1)] = []"
    by (simp add: default_animals_def get_feature_def)
  from make_guess_confidence[of default_animals "[(''carnivore'', 1)]"]
  have "snd (make_guess default_animals [(''carnivore'', 1)]) = 7/10 \<and>
   1/10 \<le> snd (make_guess default_animals [(''carnivore'', 1)]) \<and>
   snd (make_guess default_animals [(''carnivore'', 1)]) \<le> 95/100"
    unfolding fc bl by simp
  moreover from make_guess_confidence[of default_animals "[(''mammal'', 1), (''flies'', 1)]"] e
  have "snd (make_guess default_animals [(''mammal'', 1), (''flies'', 1)]) = 0" by blast
  ultimately show ?thesis using e fc by simp
qed

section \<open>Properties of the question selection\<close>

subsection \<open>The binary entropy\<close>

text \<open>
  Where \<open>calculate_entropy\<close> does not return 0 at once, both ratios lie strictly
  between 0 and 1, both logarithms are negative, and the entropy is positive. The
  question selection needs no more than this sign.
\<close>

lemma spec_binary_entropy_pos:
  assumes "0 < p" "p < 1"
  shows "0 < spec_binary_entropy p"
proof -
  have "p * log 2 p < 0" using assms by (simp add: mult_pos_neg)
  moreover have "(1 - p) * log 2 (1 - p) < 0" using assms by (simp add: mult_pos_neg)
  ultimately show ?thesis by (simp add: spec_binary_entropy_def)
qed

lemma yes_count_le: "yes_count c f \<le> length c"
  by (simp add: yes_count_def)

lemma calculate_entropy_cases:
  "calculate_entropy c f =
    (if length c \<le> 1 \<or> yes_fraction c f = 0 \<or> yes_fraction c f = 1 then 0
     else spec_binary_entropy (yes_fraction c f))"
  by (auto simp: calculate_entropy_def yes_fraction_def spec_binary_entropy_def Let_def)

lemma yes_fraction_range:
  assumes "\<not> (length c \<le> 1 \<or> yes_fraction c f = 0 \<or> yes_fraction c f = 1)"
  shows "0 < yes_fraction c f \<and> yes_fraction c f < 1"
proof -
  from assms have l: "0 < length c" by (cases c) simp_all
  from assms have "yes_count c f \<noteq> 0" by (auto simp: yes_fraction_def)
  moreover from assms l have "yes_count c f \<noteq> length c" by (auto simp: yes_fraction_def)
  ultimately have "0 < yes_count c f" "yes_count c f < length c"
    using yes_count_le[of c f] by auto
  with l show ?thesis by (simp add: yes_fraction_def)
qed

lemma log2_half: "log 2 (1/2) = -1"
  by (simp add: log_divide)

lemma calculate_entropy_nonneg: "0 \<le> calculate_entropy c f"
  using yes_fraction_range[of c f] spec_binary_entropy_pos[of "yes_fraction c f"]
  by (cases "length c \<le> 1 \<or> yes_fraction c f = 0 \<or> yes_fraction c f = 1")
     (simp_all add: calculate_entropy_cases)

subsection \<open>The best question\<close>

text \<open>
  The loop keeps the first question whose gain is above everything seen before it, so it
  ends with the first question that attains the maximum, unless no gain is above the
  initial \<open>max_gain\<close>.
\<close>

lemma Max_gain_later:
  fixes g :: "'a \<Rightarrow> real"
  assumes "x \<in> set qs" and "g q < g x"
  shows "Max (g ` set (q # qs)) = Max (g ` set qs) \<and> g q \<noteq> Max (g ` set qs)"
proof -
  have ne: "g ` set qs \<noteq> {}" using assms(1) by auto
  have "g x \<le> Max (g ` set qs)" using assms(1) by simp
  with assms(2) have lt: "g q < Max (g ` set qs)" by simp
  have "Max (g ` set (q # qs)) = max (g q) (Max (g ` set qs))"
    using ne by simp
  with lt show ?thesis by simp
qed

lemma best_question_loop_fst:
  "fst (best_question_loop c qs (b, m)) =
    (if \<forall>q\<in>set qs. weighted_gain c q \<le> m then b
     else find (\<lambda>q. weighted_gain c q = Max (weighted_gain c ` set qs)) qs)"
proof (induction qs arbitrary: b m)
  case Nil
  show ?case by simp
next
  case (Cons q qs)
  let ?g = "weighted_gain c"
  show ?case
  proof (cases "?g q > m")
    case True
    then have step: "best_question_loop c (q # qs) (b, m) = best_question_loop c qs (Some q, ?g q)"
      by (simp add: weighted_gain_def Let_def)
    show ?thesis
    proof (cases "\<forall>x\<in>set qs. ?g x \<le> ?g q")
      case all: True
      then have "Max (?g ` set (q # qs)) = ?g q"
        by (intro Max_eqI) auto
      with True all show ?thesis unfolding step Cons.IH by auto
    next
      case False
      then obtain x where x: "x \<in> set qs" "?g q < ?g x" by force
      from Max_gain_later[OF x] True False show ?thesis unfolding step Cons.IH by auto
    qed
  next
    case False
    then have step: "best_question_loop c (q # qs) (b, m) = best_question_loop c qs (b, m)"
      by (simp add: weighted_gain_def Let_def)
    show ?thesis
    proof (cases "\<forall>x\<in>set qs. ?g x \<le> m")
      case True
      with False show ?thesis unfolding step Cons.IH by auto
    next
      case nall: False
      then obtain x where x: "x \<in> set qs" "m < ?g x" by force
      with False have "?g q < ?g x" by simp
      from Max_gain_later[OF x(1) this] False nall show ?thesis unfolding step Cons.IH by auto
    qed
  qed
qed

lemma find_Max_gain:
  fixes g :: "'a \<Rightarrow> real"
  assumes "qs \<noteq> []"
  shows "\<exists>i<length qs. find (\<lambda>q. g q = Max (g ` set qs)) qs = Some (qs ! i) \<and>
           (\<forall>q\<in>set qs. g q \<le> g (qs ! i)) \<and> (\<forall>j<i. g (qs ! j) < g (qs ! i))"
proof -
  let ?M = "Max (g ` set qs)"
  have "?M \<in> g ` set qs" using assms by (intro Max_in) auto
  then obtain y where y: "y \<in> set qs" "g y = ?M" by auto
  then have "find (\<lambda>q. g q = ?M) qs \<noteq> None" by (auto simp: find_None_iff)
  then obtain z where z: "find (\<lambda>q. g q = ?M) qs = Some z" by auto
  then obtain i where i: "i < length qs" "g (qs ! i) = ?M" "z = qs ! i"
    "\<forall>j<i. g (qs ! j) \<noteq> ?M"
    unfolding find_Some_iff by blast
  have le: "\<forall>q\<in>set qs. g q \<le> ?M" by simp
  have "\<forall>j<i. g (qs ! j) < g (qs ! i)"
  proof (intro allI impI)
    fix j assume j: "j < i"
    with i(1) have "qs ! j \<in> set qs" by simp
    with le have "g (qs ! j) \<le> ?M" by blast
    with i(4) j have "g (qs ! j) < ?M" by force
    with i(2) show "g (qs ! j) < g (qs ! i)" by simp
  qed
  with i z le show ?thesis by auto
qed

lemma get_best_question_find:
  "get_best_question qs c asked =
    (if \<forall>q\<in>set (available_questions qs asked). weighted_gain c q \<le> 0 then None
     else find (\<lambda>q. weighted_gain c q = Max (weighted_gain c ` set (available_questions qs asked)))
            (available_questions qs asked))"
  by (auto simp: get_best_question_def Let_def best_question_loop_fst)

lemma weighted_gain_nonneg: "0 \<le> weight q \<Longrightarrow> 0 \<le> weighted_gain c q"
  by (simp add: weighted_gain_def calculate_entropy_nonneg)

text \<open>
  Claim C3. For a question bank of the data model (weights are not negative),
  \<open>get_best_question\<close> returns none exactly when no unused question exists or every
  unused question has weighted gain 0; otherwise it returns the first unused question, in
  bank order, whose weighted gain is the maximum over the unused questions: every unused
  question has at most its gain, and every unused question before it has less.
\<close>

theorem get_best_question_spec:
  assumes "\<forall>q\<in>set qs. 0 \<le> weight q"
  shows "(get_best_question qs c asked = None \<longleftrightarrow>
           available_questions qs asked = [] \<or>
           (\<forall>q\<in>set (available_questions qs asked). weighted_gain c q = 0)) \<and>
         (\<not> (available_questions qs asked = [] \<or>
             (\<forall>q\<in>set (available_questions qs asked). weighted_gain c q = 0)) \<longrightarrow>
           (\<exists>i<length (available_questions qs asked).
              get_best_question qs c asked = Some (available_questions qs asked ! i) \<and>
              (\<forall>q\<in>set (available_questions qs asked).
                 weighted_gain c q \<le> weighted_gain c (available_questions qs asked ! i)) \<and>
              (\<forall>j<i. weighted_gain c (available_questions qs asked ! j) <
                      weighted_gain c (available_questions qs asked ! i))))"
proof -
  let ?av = "available_questions qs asked"
  let ?g = "weighted_gain c"
  have nonneg: "\<forall>q\<in>set ?av. 0 \<le> ?g q"
    using assms by (auto simp: available_questions_def weighted_gain_nonneg)
  then have zero: "(\<forall>q\<in>set ?av. ?g q \<le> 0) \<longleftrightarrow> (\<forall>q\<in>set ?av. ?g q = 0)"
    by force
  show ?thesis
  proof (cases "\<forall>q\<in>set ?av. ?g q = 0")
    case True
    then show ?thesis using zero by (simp add: get_best_question_find)
  next
    case False
    then have ne: "?av \<noteq> []" by auto
    from False zero have nle: "\<not> (\<forall>q\<in>set ?av. ?g q \<le> 0)" by blast
    have f: "get_best_question qs c asked =
        find (\<lambda>q. ?g q = Max (?g ` set ?av)) ?av"
      by (simp only: get_best_question_find nle if_False)
    from find_Max_gain[OF ne, of ?g] f False ne show ?thesis by auto
  qed
qed

theorem get_best_question_spec_witness:
  "list_all (\<lambda>q. 0 \<le> weight q) default_questions \<and>
   get_best_question default_questions [default_animals ! 4, default_animals ! 5] [''flies''] =
     Some (default_questions ! 7) \<and>
   get_best_question default_questions [default_animals ! 4] [] = None \<and>
   (\<exists>i<length (available_questions default_questions [''flies'']).
      get_best_question default_questions [default_animals ! 4, default_animals ! 5] [''flies''] =
        Some (available_questions default_questions [''flies''] ! i) \<and>
      (\<forall>q\<in>set (available_questions default_questions [''flies'']).
         weighted_gain [default_animals ! 4, default_animals ! 5] q \<le>
         weighted_gain [default_animals ! 4, default_animals ! 5]
           (available_questions default_questions [''flies''] ! i)))"
proof -
  have h: "\<forall>q\<in>set default_questions. 0 \<le> weight q"
    by (simp add: default_questions_def)
  note t = get_best_question_spec[OF h]
  have g0: "\<forall>q\<in>set (available_questions default_questions []).
              weighted_gain [default_animals ! 4] q = 0"
    by (simp add: weighted_gain_def calculate_entropy_def)
  from t[of "[default_animals ! 4]" "[]"] g0
  have n: "get_best_question default_questions [default_animals ! 4] [] = None" by blast
  have s: "get_best_question default_questions [default_animals ! 4, default_animals ! 5] [''flies''] =
     Some (default_questions ! 7)"
    by (simp add: get_best_question_def available_questions_def default_questions_def
        default_animals_def calculate_entropy_def yes_count_def get_feature_def log2_half)
  from s t[of "[default_animals ! 4, default_animals ! 5]" "[''flies'']"]
  have e: "\<exists>i<length (available_questions default_questions [''flies'']).
      get_best_question default_questions [default_animals ! 4, default_animals ! 5] [''flies''] =
        Some (available_questions default_questions [''flies''] ! i) \<and>
      (\<forall>q\<in>set (available_questions default_questions [''flies'']).
         weighted_gain [default_animals ! 4, default_animals ! 5] q \<le>
         weighted_gain [default_animals ! 4, default_animals ! 5]
           (available_questions default_questions [''flies''] ! i))"
    by (metis option.distinct(1))
  from h have "list_all (\<lambda>q. 0 \<le> weight q) default_questions"
    by (simp only: list_all_iff)
  with n s e show ?thesis by blast
qed

section \<open>Properties of learning\<close>

subsection \<open>Writing a feature\<close>

lemma name_set_feature: "name (set_feature a f v) = name a"
  by (simp add: set_feature_def)

lemma map_of_set_feature:
  "map_of (features (set_feature a f v)) = (map_of (features a))(f \<mapsto> v)"
  by (simp add: set_feature_def update_conv')

lemma get_feature_set_feature:
  "get_feature (set_feature a f v) f' = (if f' = f then v else get_feature a f')"
  by (simp add: get_feature_def map_of_set_feature)

lemma keys_set_feature:
  "fst ` set (features (set_feature a f v)) = insert f (fst ` set (features a))"
  by (simp add: set_feature_def dom_update)

subsection \<open>The keyword scan\<close>

lemma lower_description:
  "lower ''It lives in the ocean and is huge'' = ''it lives in the ocean and is huge''"
  by (simp add: lower_def lower_char_def)

lemma extract_ocean_huge:
  "extract_features_from_description a ''It lives in the ocean and is huge'' =
     set_feature (set_feature a ''large'' 1) ''aquatic'' 1"
  unfolding extract_features_from_description_def lower_description feature_keywords_def
  by simp

text \<open>
  Claim C9. Feature extraction with the description "It lives in the ocean and is huge"
  sets the features aquatic and large of the entity to 1; every other feature keeps the
  value it had, no key of the feature dictionary is lost, and the name is unchanged.
\<close>

theorem extract_features_ocean_huge:
  "get_feature (extract_features_from_description a ''It lives in the ocean and is huge'') ''aquatic'' = 1 \<and>
   get_feature (extract_features_from_description a ''It lives in the ocean and is huge'') ''large'' = 1 \<and>
   name (extract_features_from_description a ''It lives in the ocean and is huge'') = name a \<and>
   (\<forall>f. f \<noteq> ''aquatic'' \<and> f \<noteq> ''large'' \<longrightarrow>
      map_of (features (extract_features_from_description a ''It lives in the ocean and is huge'')) f =
      map_of (features a) f) \<and>
   fst ` set (features a) \<subseteq>
     fst ` set (features (extract_features_from_description a ''It lives in the ocean and is huge''))"
  unfolding extract_ocean_huge
  by (auto simp: get_feature_set_feature name_set_feature map_of_set_feature keys_set_feature)

theorem extract_features_ocean_huge_witness:
  "''mammal'' \<noteq> ''aquatic'' \<and> ''mammal'' \<noteq> ''large'' \<and>
   map_of (features (extract_features_from_description (default_animals ! 0)
      ''It lives in the ocean and is huge'')) ''mammal'' = Some 1 \<and>
   get_feature (extract_features_from_description (default_animals ! 0)
      ''It lives in the ocean and is huge'') ''aquatic'' = 1 \<and>
   get_feature (extract_features_from_description (default_animals ! 0)
      ''It lives in the ocean and is huge'') ''large'' = 1"
proof -
  have m: "map_of (features (default_animals ! 0)) ''mammal'' = Some 1"
    by (simp add: default_animals_def)
  from extract_features_ocean_huge[of "default_animals ! 0"] m show ?thesis by simp
qed

subsection \<open>The frame of learning\<close>

lemma find_animal_None_iff:
  "find_animal as n = None \<longleftrightarrow> (\<forall>a\<in>set as. lower (name a) \<noteq> lower n)"
  by (induction as) auto

lemma find_animal_Some:
  "find_animal as n = Some i \<Longrightarrow>
     i < length as \<and> lower (name (as ! i)) = lower n \<and>
     (\<forall>j<i. lower (name (as ! j)) \<noteq> lower n)"
proof (induction as arbitrary: i)
  case Nil
  then show ?case by simp
next
  case (Cons a as)
  show ?case
  proof (cases "lower (name a) = lower n")
    case True
    with Cons.prems show ?thesis by simp
  next
    case False
    with Cons.prems obtain k where k: "find_animal as n = Some k" "i = Suc k" by auto
    from Cons.IH[OF k(1)] False k(2) show ?thesis
      by (auto simp: nth_Cons split: nat.splits)
  qed
qed

lemma name_update_features: "name (update_features a ans) = name a"
  by (induction a ans rule: update_features.induct) (simp_all add: name_set_feature)

lemma name_keyword_loop: "name (keyword_loop a d f kws) = name a"
  by (induction kws) (simp_all add: name_set_feature)

lemma name_feature_loop: "name (feature_loop a d tab) = name a"
  by (induction a d tab rule: feature_loop.induct) (simp_all add: name_keyword_loop)

lemma name_extract: "name (extract_features_from_description a d) = name a"
  by (simp add: extract_features_from_description_def name_feature_loop)

lemma name_learned_animal: "name (learned_animal a ans desc) = name a"
  by (simp add: learned_animal_def name_extract name_update_features)

lemma learn_animals_None:
  "find_animal (animals g) actual = None \<Longrightarrow>
   animals (learn_from_game now actual ans desc g) =
     animals g @ [learned_animal \<lparr>name = actual, features = []\<rparr> ans desc]"
  by (simp add: learn_from_game_def learned_animal_def Let_def)

lemma learn_animals_Some:
  "find_animal (animals g) actual = Some i \<Longrightarrow>
   animals (learn_from_game now actual ans desc g) =
     (animals g)[i := learned_animal (animals g ! i) ans desc]"
  by (simp add: learn_from_game_def learned_animal_def Let_def)

text \<open>
  Claim C8. If no entity matches the given name case-insensitively, \<open>learn_from_game\<close>
  appends exactly one entity, which has the given name, and the count grows by 1. If one
  matches, the count is unchanged, and with \<open>i\<close> the position of the first match every
  entity at another position is unchanged and the entity at \<open>i\<close> keeps its name. In both
  cases no entity is removed: the names of the old positions are the old names.
\<close>

theorem learn_from_game_frame:
  "((\<forall>a\<in>set (animals g). lower (name a) \<noteq> lower actual) \<longrightarrow>
      (\<exists>a. animals (learn_from_game now actual ans desc g) = animals g @ [a] \<and> name a = actual) \<and>
      length (animals (learn_from_game now actual ans desc g)) = length (animals g) + 1) \<and>
   ((\<exists>a\<in>set (animals g). lower (name a) = lower actual) \<longrightarrow>
      (\<exists>i<length (animals g).
         lower (name (animals g ! i)) = lower actual \<and>
         (\<forall>j<i. lower (name (animals g ! j)) \<noteq> lower actual) \<and>
         length (animals (learn_from_game now actual ans desc g)) = length (animals g) \<and>
         (\<forall>j<length (animals g). j \<noteq> i \<longrightarrow>
            animals (learn_from_game now actual ans desc g) ! j = animals g ! j) \<and>
         name (animals (learn_from_game now actual ans desc g) ! i) = name (animals g ! i))) \<and>
   length (animals g) \<le> length (animals (learn_from_game now actual ans desc g)) \<and>
   map name (take (length (animals g)) (animals (learn_from_game now actual ans desc g))) =
     map name (animals g)"
proof (cases "find_animal (animals g) actual")
  case None
  then have no: "\<forall>a\<in>set (animals g). lower (name a) \<noteq> lower actual"
    by (simp add: find_animal_None_iff)
  from learn_animals_None[OF None, of now ans desc] no show ?thesis
    by (auto simp: name_learned_animal)
next
  case (Some i)
  from find_animal_Some[OF Some] have i: "i < length (animals g)"
    "lower (name (animals g ! i)) = lower actual"
    "\<forall>j<i. lower (name (animals g ! j)) \<noteq> lower actual" by simp_all
  then have ex: "\<exists>a\<in>set (animals g). lower (name a) = lower actual"
    using nth_mem by blast
  note eq = learn_animals_Some[OF Some, of now ans desc]
  have names: "map name ((animals g)[i := learned_animal (animals g ! i) ans desc]) =
      map name (animals g)"
    using i(1) by (simp add: map_update name_learned_animal list_update_same_conv)
  have nm: "name (animals (learn_from_game now actual ans desc g) ! i) = name (animals g ! i)"
    using i(1) by (simp add: eq name_learned_animal)
  from i ex nm names show ?thesis
    unfolding eq by auto
qed

theorem learn_from_game_frame_witness:
  "list_all (\<lambda>a. lower (name a) \<noteq> lower ''Tiger'') (animals initial_guesser) \<and>
   length (animals (learn_from_game ''2024-01-01T00:00:00'' ''Tiger'' [(''mammal'', 1)] [] initial_guesser)) = 11 \<and>
   (\<exists>a\<in>set (animals initial_guesser). lower (name a) = lower ''dog'') \<and>
   length (animals (learn_from_game ''2024-01-01T00:00:00'' ''dog'' [(''barks'', 1)] ''a pet''
     initial_guesser)) = 10"
proof -
  have l: "length (animals initial_guesser) = 10"
    by (simp add: initial_guesser_def default_animals_def)
  have n: "\<forall>a\<in>set (animals initial_guesser). lower (name a) \<noteq> lower ''Tiger''"
    by (simp add: initial_guesser_def default_animals_def lower_def lower_char_def)
  have "lower (name (animals initial_guesser ! 0)) = lower ''dog''"
    by (simp add: initial_guesser_def default_animals_def lower_def lower_char_def)
  moreover have "animals initial_guesser ! 0 \<in> set (animals initial_guesser)"
    by (rule nth_mem) (simp add: l)
  ultimately have e: "\<exists>a\<in>set (animals initial_guesser). lower (name a) = lower ''dog''"
    by blast
  from learn_from_game_frame[of initial_guesser "''Tiger''" "''2024-01-01T00:00:00''"
      "[(''mammal'', 1)]" "[]"] n l
  have 1: "length (animals (learn_from_game ''2024-01-01T00:00:00'' ''Tiger'' [(''mammal'', 1)] []
      initial_guesser)) = 11"
    by simp
  from learn_from_game_frame[of initial_guesser "''dog''" "''2024-01-01T00:00:00''"
      "[(''barks'', 1)]" "''a pet''"] e l
  have 2: "length (animals (learn_from_game ''2024-01-01T00:00:00'' ''dog'' [(''barks'', 1)] ''a pet''
      initial_guesser)) = 10"
    by auto
  from n have "list_all (\<lambda>a. lower (name a) \<noteq> lower ''Tiger'') (animals initial_guesser)"
    by (simp only: list_all_iff)
  with e 1 2 show ?thesis by blast
qed

subsection \<open>Learning, then filtering\<close>

lemma get_feature_update_features_other:
  "f \<notin> fst ` set ans \<Longrightarrow> get_feature (update_features a ans) f = get_feature a f"
  by (induction a ans rule: update_features.induct) (auto simp: get_feature_set_feature)

lemma get_feature_update_features:
  "distinct (map fst ans) \<Longrightarrow> (f, v) \<in> set ans \<Longrightarrow>
     get_feature (update_features a ans) f = real_of_int v"
proof (induction a ans rule: update_features.induct)
  case (1 a)
  then show ?case by simp
next
  case (2 a f' v' rest)
  show ?case
  proof (cases "(f, v) \<in> set rest")
    case True
    with "2.IH" "2.prems" show ?thesis by simp
  next
    case False
    with "2.prems" have e: "f = f'" "v = v'" and n: "f' \<notin> fst ` set rest" by auto
    show ?thesis
      by (simp add: e get_feature_update_features_other[OF n] get_feature_set_feature)
  qed
qed

lemma matches_answers_learned:
  assumes "distinct (map fst ans)"
  shows "matches_answers (update_features a ans) ans"
  unfolding matches_answers_iff
  using get_feature_update_features[OF assms, of _ _ a]
  by (auto simp: spec_excluded_def)

text \<open>
  Claim C10. For every name and every AnswerSet (a dictionary: its keys are distinct)
  whose values are all 0 or 1, after \<open>learn_from_game\<close> with an empty description the
  candidates for the same answers contain an entity with that name, up to case, whose
  features are the answers it was taught.
\<close>

theorem learn_then_filter:
  assumes "distinct (map fst ans)" and "\<forall>(f, v)\<in>set ans. v = 0 \<or> v = 1"
  shows "\<exists>a\<in>set (filter_candidates (animals (learn_from_game now actual ans [] g)) ans).
           lower (name a) = lower actual \<and> (\<forall>(f, v)\<in>set ans. get_feature a f = real_of_int v)"
proof -
  let ?g' = "learn_from_game now actual ans [] g"
  have "\<exists>a b. a \<in> set (animals ?g') \<and> a = update_features b ans \<and> lower (name b) = lower actual"
  proof (cases "find_animal (animals g) actual")
    case None
    from learn_animals_None[OF None, of now ans "[]"]
    have "update_features \<lparr>name = actual, features = []\<rparr> ans \<in> set (animals ?g')"
      by (simp add: learned_animal_def)
    moreover have "lower (name \<lparr>name = actual, features = []\<rparr>) = lower actual" by simp
    ultimately show ?thesis by blast
  next
    case (Some i)
    from find_animal_Some[OF Some] have i: "i < length (animals g)"
      "lower (name (animals g ! i)) = lower actual" by simp_all
    have "(animals g)[i := update_features (animals g ! i) ans] ! i \<in>
        set ((animals g)[i := update_features (animals g ! i) ans])"
      using i(1) by (intro nth_mem) simp
    with i learn_animals_Some[OF Some, of now ans "[]"] show ?thesis
      by (auto simp: learned_animal_def)
  qed
  then obtain a b where ab: "a \<in> set (animals ?g')" "a = update_features b ans"
    "lower (name b) = lower actual" by blast
  have m: "matches_answers a ans" unfolding ab(2) by (rule matches_answers_learned[OF assms(1)])
  with ab(1) have "a \<in> set (filter_candidates (animals ?g') ans)"
    by (simp add: filter_candidates_filter)
  moreover have "lower (name a) = lower actual" by (simp add: ab name_update_features)
  moreover have "\<forall>(f, v)\<in>set ans. get_feature a f = real_of_int v"
    using get_feature_update_features[OF assms(1), of _ _ b] ab(2) by auto
  ultimately show ?thesis by blast
qed

theorem learn_then_filter_witness:
  "distinct (map fst [(''mammal'', 1::int), (''flies'', 0)]) \<and>
   list_all (\<lambda>(f, v). v = 0 \<or> v = 1) [(''mammal'', 1::int), (''flies'', 0)] \<and>
   (\<exists>a\<in>set (filter_candidates
        (animals (learn_from_game ''2024-01-01T00:00:00'' ''Tiger''
           [(''mammal'', 1), (''flies'', 0)] [] initial_guesser))
        [(''mammal'', 1), (''flies'', 0)]).
      lower (name a) = lower ''Tiger'' \<and>
      (\<forall>(f, v)\<in>set [(''mammal'', 1::int), (''flies'', 0)]. get_feature a f = real_of_int v))"
proof -
  have d: "distinct (map fst [(''mammal'', 1::int), (''flies'', 0)])" by simp
  have b: "\<forall>(f, v)\<in>set [(''mammal'', 1::int), (''flies'', 0)]. v = 0 \<or> v = 1" by simp
  have b': "list_all (\<lambda>(f, v). v = 0 \<or> v = 1) [(''mammal'', 1::int), (''flies'', 0)]" by simp
  from d b' learn_then_filter[OF d b, of "''2024-01-01T00:00:00''" "''Tiger''" initial_guesser]
  show ?thesis by blast
qed

end
